theory Spec2Isabelle
  imports Main "HOL-Library.Word"
begin

unbundle bit_operations_syntax

section \<open>Constants and enumerations of tinydb.cpp\<close>

type_synonym byte = "8 word"
type_synonym u32 = "32 word"

text \<open>Lines 29-32: the compile-time constants, all of type \<^verbatim>\<open>uint32_t\<close>.\<close>

definition PAGE_SIZE :: u32 where
  "PAGE_SIZE = 4096"

definition MAGIC_NUMBER :: u32 where
  "MAGIC_NUMBER = 0x12345678"

definition MAX_IDENTIFIER_LENGTH :: u32 where
  "MAX_IDENTIFIER_LENGTH = 64"


text \<open>Lines 37-43: \<^verbatim>\<open>enum class ErrorCode\<close>.\<close>

datatype ErrorCode =
  SUCCESS | FILE_IO_ERROR | PAGE_ALLOCATION_FAILURE | INVALID_INPUT | OUT_OF_MEMORY

section \<open>Packed on-disk structures and the B-Tree layout constants\<close>

text \<open>
  Lines 103-149 declare the structures under \<^verbatim>\<open>#pragma pack(push, 1)\<close>: no padding, so the
  size of a structure is the sum of the sizes of its members. Sizes are \<^verbatim>\<open>size_t\<close>
  values in the source; none of the computations below comes near its range, so they are
  natural numbers here.
\<close>

definition sizeof_uint32_t :: nat where
  "sizeof_uint32_t = 4"

text \<open>\<^verbatim>\<open>struct PageHeader { uint32_t pageType; uint32_t nextPage; uint32_t entryCount; }\<close>\<close>

definition sizeof_PageHeader :: nat where
  "sizeof_PageHeader = sizeof_uint32_t + sizeof_uint32_t + sizeof_uint32_t"




text \<open>Lines 162-165. The quotient is converted to \<^verbatim>\<open>uint32_t\<close> by the initialisation.\<close>

definition KEY_PAIR_SIZE :: u32 where
  "KEY_PAIR_SIZE = of_nat (sizeof_uint32_t + sizeof_uint32_t)"

definition MAX_KEYS :: u32 where
  "MAX_KEYS = of_nat ((unat PAGE_SIZE - sizeof_PageHeader - sizeof_uint32_t) div unat KEY_PAIR_SIZE)"

definition MAX_RECORDS :: u32 where
  "MAX_RECORDS = MAX_KEYS"


section \<open>The file stream and the file system\<close>

text \<open>
  \<^verbatim>\<open>StorageManager\<close> keeps a \<^verbatim>\<open>std::fstream\<close>. The class is the C++ library's, so it is
  modelled from the C++17 standard, as far as the member functions of \<^verbatim>\<open>StorageManager\<close>
  use it.

  The stream's error state. \<^verbatim>\<open>fail()\<close> reports failbit or badbit and the program never
  tells the two apart, so they are one state here. eofbit is set only by \<^verbatim>\<open>read\<close>, together
  with failbit, and failbit is reset only by \<^verbatim>\<open>clear()\<close> and by a successful \<^verbatim>\<open>open\<close>, which
  reset eofbit as well: eofbit without failbit does not occur.
\<close>

datatype iostate = Good | Failed | FailedEof

record fstream =
  is_open :: bool
  path :: string
  state :: iostate
  pos :: nat

definition fail :: "fstream \<Rightarrow> bool" where
  "fail s = (state s \<noteq> Good)"

definition eof :: "fstream \<Rightarrow> bool" where
  "eof s = (state s = FailedEof)"

text \<open>\<^verbatim>\<open>setstate(failbit)\<close> and \<^verbatim>\<open>setstate(badbit)\<close>: the other bits stay.\<close>

definition setstate_fail :: "fstream \<Rightarrow> fstream" where
  "setstate_fail s =
     s\<lparr>state := (case state s of Good \<Rightarrow> Failed | Failed \<Rightarrow> Failed | FailedEof \<Rightarrow> FailedEof)\<rparr>"

text \<open>
  The state a member function of \<^verbatim>\<open>StorageManager\<close> runs in: the three data members of the
  object (lines 215-217) and the file system the stream works on, a map from path names to
  file contents.
\<close>

record world =
  file_stream :: fstream
  filename :: string
  pageCount :: u32
  disk :: "string \<rightharpoonup> byte list"

text \<open>
  How the operating system answers the requests made during one call of a member
  function: whether it grants opening the file for reading and writing, whether it grants
  creating or emptying it, and whether positioning, reading and writing succeed. A read
  or write that fails may have moved some of the bytes before it failed, but not all of
  them: \<open>moved\<close> is how many, at most.
\<close>

record io =
  open_ok :: bool
  create_ok :: bool
  seek_ok :: bool
  read_ok :: bool
  write_ok :: bool
  moved :: nat

definition no_faults :: io where
  "no_faults =
     \<lparr>open_ok = True, create_ok = True, seek_ok = True, read_ok = True, write_ok = True,
      moved = 0\<rparr>"

text \<open>
  Writing \<open>data\<close> at byte offset \<open>off\<close> of a file with contents \<open>c\<close>: the bytes in the
  range are replaced, a file that is shorter grows, and a gap between the old end and
  \<open>off\<close> reads as zeros.
\<close>

definition pwrite :: "byte list \<Rightarrow> nat \<Rightarrow> byte list \<Rightarrow> byte list" where
  "pwrite c off data =
     take off c @ replicate (off - length c) 0 @ data @ drop (off + length data) c"

datatype openmode = InOutBinary | OutBinary

text \<open>
  \<^verbatim>\<open>file.open(name, mode)\<close>. It fails with failbit on a stream that is open already. With
  \<^verbatim>\<open>in | out | binary\<close> the file must exist; \<^verbatim>\<open>out | binary\<close> creates it, or empties
  it. Success calls \<^verbatim>\<open>clear()\<close>.
\<close>

definition fstream_open :: "bool \<Rightarrow> openmode \<Rightarrow> string \<Rightarrow> world \<Rightarrow> world" where
  "fstream_open granted mode p w =
     (let s = file_stream w in
      if is_open s then w\<lparr>file_stream := setstate_fail s\<rparr>
      else case mode of
        InOutBinary \<Rightarrow>
          (if granted \<and> disk w p \<noteq> None
           then w\<lparr>file_stream := \<lparr>is_open = True, path = p, state = Good, pos = 0\<rparr>\<rparr>
           else w\<lparr>file_stream := setstate_fail s\<rparr>)
      | OutBinary \<Rightarrow>
          (if granted
           then w\<lparr>file_stream := \<lparr>is_open = True, path = p, state = Good, pos = 0\<rparr>,
                  disk := (disk w)(p \<mapsto> [])\<rparr>
           else w\<lparr>file_stream := setstate_fail s\<rparr>))"

text \<open>\<^verbatim>\<open>file.clear()\<close>\<close>

definition fstream_clear :: "world \<Rightarrow> world" where
  "fstream_clear w = w\<lparr>file_stream := (file_stream w)\<lparr>state := Good\<rparr>\<rparr>"

text \<open>\<^verbatim>\<open>file.close()\<close>: failbit when the stream is not open.\<close>

definition fstream_close :: "world \<Rightarrow> world" where
  "fstream_close w =
     (let s = file_stream w in
      if is_open s then w\<lparr>file_stream := s\<lparr>is_open := False\<rparr>\<rparr>
      else w\<lparr>file_stream := setstate_fail s\<rparr>)"

text \<open>
  \<^verbatim>\<open>file.seekp(off, std::ios::beg)\<close>: nothing happens when \<^verbatim>\<open>fail()\<close> holds; otherwise
  the position is set, or failbit if positioning fails. Positions beyond the end of the
  file are allowed.
\<close>

definition seekp :: "bool \<Rightarrow> nat \<Rightarrow> world \<Rightarrow> world" where
  "seekp ok off w =
     (let s = file_stream w in
      if fail s then w
      else if ok \<and> is_open s then w\<lparr>file_stream := s\<lparr>pos := off\<rparr>\<rparr>
      else w\<lparr>file_stream := setstate_fail s\<rparr>)"

text \<open>\<^verbatim>\<open>seekg\<close> clears eofbit first (since C++11), then works as \<^verbatim>\<open>seekp\<close>.\<close>

definition clear_eofbit :: "world \<Rightarrow> world" where
  "clear_eofbit w =
     (let s = file_stream w in
      w\<lparr>file_stream := s\<lparr>state := (case state s of FailedEof \<Rightarrow> Failed | st \<Rightarrow> st)\<rparr>\<rparr>)"

definition seekg :: "bool \<Rightarrow> nat \<Rightarrow> world \<Rightarrow> world" where
  "seekg ok off w = seekp ok off (clear_eofbit w)"

text \<open>\<^verbatim>\<open>file.seekg(0, std::ios::end)\<close>\<close>

definition seekg_end :: "bool \<Rightarrow> world \<Rightarrow> world" where
  "seekg_end ok w =
     (let w1 = clear_eofbit w; s = file_stream w1 in
      if fail s then w1
      else case (if ok \<and> is_open s then disk w1 (path s) else None) of
        None \<Rightarrow> w1\<lparr>file_stream := setstate_fail s\<rparr>
      | Some c \<Rightarrow> w1\<lparr>file_stream := s\<lparr>pos := length c\<rparr>\<rparr>)"

text \<open>\<^verbatim>\<open>file.tellg()\<close>: \<open>-1\<close> when \<^verbatim>\<open>fail()\<close> holds.\<close>

definition tellg :: "world \<Rightarrow> int" where
  "tellg w = (let s = file_stream w in if fail s \<or> \<not> is_open s then - 1 else int (pos s))"

text \<open>
  \<^verbatim>\<open>file.write(data, n)\<close>: nothing is written when the stream is not good. A transfer
  that fails sets badbit; the first \<open>k\<close> bytes, and fewer than all of them, have reached
  the file by then. The stream's buffer is modelled as write-through: the bytes reach the
  file in \<^verbatim>\<open>write\<close>, and \<^verbatim>\<open>flush()\<close> finds nothing left to do.
\<close>

definition fstream_write :: "bool \<Rightarrow> nat \<Rightarrow> byte list \<Rightarrow> world \<Rightarrow> world" where
  "fstream_write ok k data w =
     (let s = file_stream w in
      if fail s then w
      else case (if is_open s then disk w (path s) else None) of
        None \<Rightarrow> w\<lparr>file_stream := setstate_fail s\<rparr>
      | Some c \<Rightarrow>
          if ok
          then w\<lparr>file_stream := s\<lparr>pos := pos s + length data\<rparr>,
                 disk := (disk w)(path s \<mapsto> pwrite c (pos s) data)\<rparr>
          else
            (let part = take k (butlast data)
             in w\<lparr>file_stream := setstate_fail (s\<lparr>pos := pos s + length part\<rparr>),
                  disk := (if part = [] then disk w
                           else (disk w)(path s \<mapsto> pwrite c (pos s) part))\<rparr>))"

definition flush :: "world \<Rightarrow> world" where
  "flush w = w"

text \<open>
  \<^verbatim>\<open>file.read(buf, n)\<close>: nothing is read when the stream is not good. When the file ends
  before \<open>n\<close> bytes, the bytes there are stored at the start of the buffer and eofbit
  and failbit are set. A transfer that fails sets badbit; the first \<open>k\<close> of the bytes
  that were there, and fewer than all of them, are in the buffer by then.
\<close>

definition fstream_read ::
  "bool \<Rightarrow> nat \<Rightarrow> nat \<Rightarrow> byte list \<Rightarrow> world \<Rightarrow> byte list \<times> world" where
  "fstream_read ok k n buf w =
     (let s = file_stream w in
      if fail s then (buf, w)
      else case (if is_open s then disk w (path s) else None) of
        None \<Rightarrow> (buf, w\<lparr>file_stream := setstate_fail s\<rparr>)
      | Some c \<Rightarrow>
          (let got = take n (drop (pos s) c)
           in if ok
              then
                (let s' = s\<lparr>pos := pos s + length got\<rparr>
                 in (got @ drop (length got) buf,
                     w\<lparr>file_stream :=
                         (if length got < n then s'\<lparr>state := FailedEof\<rparr> else s')\<rparr>))
              else
                (let part = take k (butlast got)
                 in (part @ drop (length part) buf,
                     w\<lparr>file_stream := setstate_fail (s\<lparr>pos := pos s + length part\<rparr>)\<rparr>))))"

section \<open>Integer arithmetic of C++\<close>

text \<open>Division and remainder of signed integers truncate towards zero.\<close>

definition trunc_div :: "int \<Rightarrow> int \<Rightarrow> int" where
  "trunc_div a b = sgn a * sgn b * (\<bar>a\<bar> div \<bar>b\<bar>)"

definition trunc_rem :: "int \<Rightarrow> int \<Rightarrow> int" where
  "trunc_rem a b = sgn a * (\<bar>a\<bar> mod \<bar>b\<bar>)"

text \<open>
  \<^verbatim>\<open>std::memcpy(header, &MAGIC_NUMBER, sizeof(MAGIC_NUMBER))\<close> copies the object
  representation of the constant, whose byte order is the platform's.
\<close>

datatype endian = LittleEndian | BigEndian

definition object_bytes :: "endian \<Rightarrow> u32 \<Rightarrow> byte list" where
  "object_bytes e v =
     (let le = [ucast v, ucast (drop_bit 8 v), ucast (drop_bit 16 v), ucast (drop_bit 24 v)]
      in case e of LittleEndian \<Rightarrow> le | BigEndian \<Rightarrow> rev le)"

text \<open>Reading a \<^verbatim>\<open>uint32_t\<close> from its four bytes, to say what value a header holds.\<close>

fun load_u32 :: "endian \<Rightarrow> byte list \<Rightarrow> u32" where
  "load_u32 LittleEndian [b0, b1, b2, b3] =
     ucast b0 OR push_bit 8 (ucast b1) OR push_bit 16 (ucast b2) OR push_bit 24 (ucast b3)"
| "load_u32 BigEndian [b0, b1, b2, b3] =
     ucast b3 OR push_bit 8 (ucast b2) OR push_bit 16 (ucast b1) OR push_bit 24 (ucast b0)"
| "load_u32 _ _ = 0"

text \<open>\<^verbatim>\<open>memcpy(dst, src, n)\<close> with \<open>src\<close> the \<open>n\<close> bytes copied, to the start of \<open>dst\<close>.\<close>

definition memcpy :: "byte list \<Rightarrow> byte list \<Rightarrow> byte list" where
  "memcpy dst src = src @ drop (length src) dst"

section \<open>StorageManager\<close>

text \<open>
  \<^verbatim>\<open>StorageManager::open\<close> (lines 232-270). The arguments before the file name are the
  operating system's answers and the platform's byte order, which the \<^verbatim>\<open>memcpy\<close> of the
  magic number depends on.
\<close>

definition open_file :: "io \<Rightarrow> endian \<Rightarrow> string \<Rightarrow> world \<Rightarrow> ErrorCode \<times> world" where
  "open_file env e fname w0 =
     (let w1 = w0\<lparr>filename := fname\<rparr>;
          w2 = fstream_open (open_ok env) InOutBinary (filename w1) w1
      in if \<not> is_open (file_stream w2) then
           (let w3 = fstream_clear w2;
                w4 = fstream_open (create_ok env) OutBinary (filename w3) w3
            in if \<not> is_open (file_stream w4) then (FILE_IO_ERROR, w4)
               else
                 (let w5 = fstream_close w4;
                      w6 = fstream_open (open_ok env) InOutBinary (filename w5) w5
                  in if \<not> is_open (file_stream w6) then (FILE_IO_ERROR, w6)
                     else
                       (let w7 = w6\<lparr>pageCount := 1\<rparr>;
                            header = memcpy (replicate (unat PAGE_SIZE) 0)
                                       (object_bytes e MAGIC_NUMBER);
                            w8 = seekp (seek_ok env) 0 w7;
                            w9 = fstream_write (write_ok env) (moved env)
                                   (take (unat PAGE_SIZE) header) w8;
                            w10 = flush w9
                        in (SUCCESS, w10))))
         else
           (let w3 = seekg_end (seek_ok env) w2;
                fileSize = tellg w3
            in if trunc_rem fileSize (uint PAGE_SIZE) \<noteq> 0 then (FILE_IO_ERROR, w3)
               else (SUCCESS,
                     w3\<lparr>pageCount := word_of_int (trunc_div fileSize (uint PAGE_SIZE))\<rparr>)))"

text \<open>\<^verbatim>\<open>StorageManager::close\<close> (lines 275-279)\<close>

definition close :: "world \<Rightarrow> ErrorCode \<times> world" where
  "close w =
     (if is_open (file_stream w) then (SUCCESS, fstream_close w) else (SUCCESS, w))"

text \<open>
  \<^verbatim>\<open>StorageManager::readPage\<close> (lines 284-296). The buffer argument is \<open>None\<close> for a null
  pointer and otherwise the contents of the caller's buffer, which the source requires to
  hold \<^verbatim>\<open>PAGE_SIZE\<close> bytes; the buffer's contents after the call are part of the result.
  The offset \<^verbatim>\<open>pageNumber * PAGE_SIZE\<close> is a product of two \<^verbatim>\<open>uint32_t\<close> values.
\<close>

definition readPage ::
  "io \<Rightarrow> u32 \<Rightarrow> byte list option \<Rightarrow> world \<Rightarrow> ErrorCode \<times> byte list option \<times> world" where
  "readPage env pageNumber buffer w =
     (if \<not> is_open (file_stream w) \<or> buffer = None then (INVALID_INPUT, buffer, w)
      else if pageNumber \<ge> pageCount w then (INVALID_INPUT, buffer, w)
      else
        (let w1 = seekg (seek_ok env) (unat (pageNumber * PAGE_SIZE)) w
         in if fail (file_stream w1) then (FILE_IO_ERROR, buffer, w1)
            else
              (let (buf, w2) = fstream_read (read_ok env) (moved env) (unat PAGE_SIZE)
                                  (the buffer) w1
               in if fail (file_stream w2) \<and> \<not> eof (file_stream w2)
                  then (FILE_IO_ERROR, Some buf, w2)
                  else (SUCCESS, Some buf, w2))))"

text \<open>
  \<^verbatim>\<open>StorageManager::writePage\<close> (lines 301-314). The buffer is \<open>None\<close> for a null pointer
  and otherwise the bytes of the caller's buffer, of which \<^verbatim>\<open>PAGE_SIZE\<close> are written.
\<close>

definition writePage :: "io \<Rightarrow> u32 \<Rightarrow> byte list option \<Rightarrow> world \<Rightarrow> ErrorCode \<times> world" where
  "writePage env pageNumber buffer w =
     (if \<not> is_open (file_stream w) \<or> buffer = None then (INVALID_INPUT, w)
      else if pageNumber \<ge> pageCount w then (INVALID_INPUT, w)
      else
        (let w1 = seekp (seek_ok env) (unat (pageNumber * PAGE_SIZE)) w
         in if fail (file_stream w1) then (FILE_IO_ERROR, w1)
            else
              (let w2 = fstream_write (write_ok env) (moved env)
                           (take (unat PAGE_SIZE) (the buffer)) w1
               in if fail (file_stream w2) then (FILE_IO_ERROR, w2)
                  else (SUCCESS, flush w2))))"

text \<open>\<^verbatim>\<open>StorageManager::writeZeroPage\<close> (lines 220-223)\<close>

definition writeZeroPage :: "io \<Rightarrow> u32 \<Rightarrow> world \<Rightarrow> ErrorCode \<times> world" where
  "writeZeroPage env pageNumber w =
     (let zeroPage = replicate (unat PAGE_SIZE) 0
      in writePage env pageNumber (Some zeroPage) w)"

text \<open>
  \<^verbatim>\<open>StorageManager::allocatePage\<close> (lines 319-326). The reference parameter is the value
  of the caller's variable before the call; its value after the call is the second
  component of the result.
\<close>

definition allocatePage :: "io \<Rightarrow> u32 \<Rightarrow> world \<Rightarrow> ErrorCode \<times> u32 \<times> world" where
  "allocatePage env pageNumber w =
     (if \<not> is_open (file_stream w) then (FILE_IO_ERROR, pageNumber, w)
      else
        (let pageNumber' = pageCount w;
             w1 = w\<lparr>pageCount := pageCount w + 1\<rparr>;
             (rc, w2) = writeZeroPage env pageNumber' w1
         in (rc, pageNumber', w2)))"

text \<open>\<^verbatim>\<open>StorageManager::freePage\<close> (lines 331-338)\<close>

definition freePage :: "u32 \<Rightarrow> world \<Rightarrow> ErrorCode \<times> world" where
  "freePage pageNumber w =
     (if \<not> is_open (file_stream w) then (FILE_IO_ERROR, w)
      else if pageNumber \<ge> pageCount w then (INVALID_INPUT, w)
      else (SUCCESS, w))"

text \<open>\<^verbatim>\<open>StorageManager::getPageCount\<close> (line 343)\<close>

definition getPageCount :: "world \<Rightarrow> u32" where
  "getPageCount w = pageCount w"

text \<open>
  A default-constructed \<^verbatim>\<open>StorageManager\<close> (line 226) over a file system \<open>d\<close>: the stream
  is closed and good, the name empty, the page count 0 (line 217).
\<close>

definition fresh :: "(string \<rightharpoonup> byte list) \<Rightarrow> world" where
  "fresh d =
     \<lparr>file_stream = \<lparr>is_open = False, path = [], state = Good, pos = 0\<rparr>,
      filename = [], pageCount = 0, disk = d\<rparr>"

section \<open>Sequences of calls\<close>

text \<open>
  A caller that makes one call after the other on the same manager, as \<^verbatim>\<open>main\<close> does
  (lines 353-374), each call with the operating system's answers for it.
\<close>

datatype call =
  Open endian string
  | ReadPage u32 "byte list option"
  | WritePage u32 "byte list option"
  | AllocatePage u32
  | FreePage u32

text \<open>One call: its return code and the state after it.\<close>

fun perform :: "io \<Rightarrow> call \<Rightarrow> world \<Rightarrow> ErrorCode \<times> world" where
  "perform env (Open e fname) w = open_file env e fname w"
| "perform env (ReadPage n buffer) w = (case readPage env n buffer w of (rc, _, w') \<Rightarrow> (rc, w'))"
| "perform env (WritePage n buffer) w = writePage env n buffer w"
| "perform env (AllocatePage pn) w = (case allocatePage env pn w of (rc, _, w') \<Rightarrow> (rc, w'))"
| "perform env (FreePage n) w = freePage n w"

text \<open>The state after a sequence of calls.\<close>

fun run :: "(io \<times> call) list \<Rightarrow> world \<Rightarrow> world" where
  "run [] w = w"
| "run ((env, c) # cs) w = run cs (snd (perform env c w))"

fun is_allocate :: "call \<Rightarrow> bool" where
  "is_allocate (AllocatePage _) = True"
| "is_allocate _ = False"

text \<open>
  Every \<^verbatim>\<open>allocatePage\<close> of the sequence returns \<^verbatim>\<open>SUCCESS\<close>; the other calls may
  return what they will.
\<close>

fun allocations_succeed :: "(io \<times> call) list \<Rightarrow> world \<Rightarrow> bool" where
  "allocations_succeed [] w = True"
| "allocations_succeed ((env, c) # cs) w =
     ((if is_allocate c then fst (perform env c w) = SUCCESS else True)
      \<and> allocations_succeed cs (snd (perform env c w)))"

text \<open>The size in bytes of the file the stream is attached to.\<close>

definition file_size :: "world \<Rightarrow> nat option" where
  "file_size w = map_option length (disk w (path (file_stream w)))"

text \<open>The page count is the number of pages in the file, and the file holds whole pages.\<close>

definition consistent :: "world \<Rightarrow> bool" where
  "consistent w =
     (is_open (file_stream w) \<and> file_size w = Some (unat (pageCount w) * unat PAGE_SIZE))"

section \<open>Example states\<close>

text \<open>
  The database the test driver of the source creates when it is run in an empty
  directory on a little-endian machine: \<^verbatim>\<open>storage.open("tinydb_test.db")\<close> (line 354).
\<close>

definition created_db :: world where
  "created_db = snd (open_file no_faults LittleEndian ''tinydb_test.db'' (fresh Map.empty))"

text \<open>
  Environments in which one kind of request fails: a write that is refused before a byte
  is moved, a write that is cut short after 1904 bytes (the disk is full), positioning
  that fails, and a file that may be emptied but not opened for reading and writing (its
  permissions allow writing only).
\<close>

definition write_refused :: io where
  "write_refused =
     \<lparr>open_ok = True, create_ok = True, seek_ok = True, read_ok = True, write_ok = False,
      moved = 0\<rparr>"

definition write_cut_short :: io where
  "write_cut_short =
     \<lparr>open_ok = True, create_ok = True, seek_ok = True, read_ok = True, write_ok = False,
      moved = 1904\<rparr>"

definition seek_refused :: io where
  "seek_refused =
     \<lparr>open_ok = True, create_ok = True, seek_ok = False, read_ok = True, write_ok = True,
      moved = 0\<rparr>"

definition write_only_file :: io where
  "write_only_file =
     \<lparr>open_ok = False, create_ok = True, seek_ok = True, read_ok = True, write_ok = True,
      moved = 0\<rparr>"

text \<open>
  A manager that was opened on a file of two pages, closed, and opened again on a file of
  5000 bytes. The second \<^verbatim>\<open>open\<close> returns \<^verbatim>\<open>FILE_IO_ERROR\<close> at line 265, after the stream
  was opened on the second file and before \<^verbatim>\<open>pageCount\<close> is assigned: the stream stays
  open, and the page count is still that of the first file.
\<close>

definition two_files :: "string \<rightharpoonup> byte list" where
  "two_files = [''a.db'' \<mapsto> replicate 8192 0, ''b.db'' \<mapsto> replicate 5000 7]"

definition stale_count_db :: world where
  "stale_count_db =
     snd (open_file no_faults LittleEndian ''b.db''
       (snd (close (snd (open_file no_faults LittleEndian ''a.db'' (fresh two_files))))))"

text \<open>
  A database file of exactly 4 GiB, \<open>2\<^sup>2\<^sup>0\<close> pages: the header page and zeros. The manager
  opens it, allocates a page, writes the page it was given, closes the file and opens it
  again.
\<close>

definition four_gib_file :: "byte list" where
  "four_gib_file = object_bytes LittleEndian MAGIC_NUMBER @ replicate 4294967292 0"

definition four_gib_db :: world where
  "four_gib_db =
     snd (open_file no_faults LittleEndian ''big.db'' (fresh [''big.db'' \<mapsto> four_gib_file]))"

definition four_gib_db_allocated :: world where
  "four_gib_db_allocated = snd (snd (allocatePage no_faults 0 four_gib_db))"

definition four_gib_db_written :: world where
  "four_gib_db_written =
     snd (writePage no_faults 1048576 (Some (replicate 4096 0xAA)) four_gib_db_allocated)"

definition four_gib_db_reopened :: world where
  "four_gib_db_reopened =
     snd (open_file no_faults LittleEndian ''big.db'' (snd (close four_gib_db_written)))"

text \<open>
  Calls on the database that \<^verbatim>\<open>open\<close> has just created: some succeed, one passes a page
  number that is out of range, one meets a write that is cut short, and the calls after
  that find the stream in its failed state.
\<close>

definition demo_calls :: "(io \<times> call) list" where
  "demo_calls =
     [(no_faults, AllocatePage 0),
      (no_faults, WritePage 1 (Some (replicate 4096 0xAA))),
      (no_faults, FreePage 9),
      (write_cut_short, WritePage 1 (Some (replicate 4096 0x55))),
      (no_faults, ReadPage 1 (Some (replicate 4096 0))),
      (no_faults, Open LittleEndian ''other.db'')]"

section \<open>What each member function computes, case by case\<close>

lemmas stream_defs =
  fstream_open_def fstream_clear_def fstream_close_def seekp_def seekg_def seekg_end_def
  clear_eofbit_def tellg_def fstream_write_def fstream_read_def flush_def fail_def eof_def
  setstate_fail_def Let_def

lemma trunc_rem_int [simp]: "trunc_rem (int n) 4096 = int (n mod 4096)"
  by (cases "n = 0") (simp_all add: trunc_rem_def zmod_int)

lemma trunc_div_int [simp]: "trunc_div (int n) 4096 = int (n div 4096)"
  by (cases "n = 0") (simp_all add: trunc_div_def zdiv_int)

lemma trunc_rem_minus_one [simp]: "trunc_rem (- 1) 4096 = - 1"
  by (simp add: trunc_rem_def)

lemma length_object_bytes [simp]: "length (object_bytes e v) = 4"
  by (cases e) (simp_all add: object_bytes_def)

lemma magic_bytes_le: "object_bytes LittleEndian MAGIC_NUMBER = [0x78, 0x56, 0x34, 0x12]"
  by (simp add: object_bytes_def MAGIC_NUMBER_def)

lemma magic_bytes_be: "object_bytes BigEndian MAGIC_NUMBER = [0x12, 0x34, 0x56, 0x78]"
  by (simp add: object_bytes_def MAGIC_NUMBER_def)

lemma replicate_4: "replicate 4 x = [x, x, x, x]"
  by (simp add: numeral_eq_Suc)

lemma header_bytes:
  "take 4096 (memcpy (replicate 4096 0) (object_bytes e MAGIC_NUMBER))
     = object_bytes e MAGIC_NUMBER @ replicate 4092 0"
  by (cases e) (simp_all add: memcpy_def object_bytes_def)

lemma word_less_succ: "(pc :: u32) < pc + 1 \<longleftrightarrow> pc \<noteq> - 1"
  by (metis inc_less_eq_self_iff_eq linorder_not_le)

lemma unat_succ: "(pc :: u32) \<noteq> - 1 \<Longrightarrow> unat (pc + 1) = unat pc + 1"
  by (metis add.commute max_word_wrap plus_1_eq_Suc unatSuc)

subsection \<open>open\<close>

text \<open>On a stream that is open already, line 235 fails and the else branch finds -1.\<close>

lemma open_file_on_open_stream:
  assumes "is_open (file_stream w)"
  shows "open_file env e fname w =
           (FILE_IO_ERROR,
            w\<lparr>file_stream := (file_stream w)\<lparr>state := Failed\<rparr>, filename := fname\<rparr>)"
  using assms
  by (cases "state (file_stream w)") (simp_all add: open_file_def stream_defs PAGE_SIZE_def)

text \<open>
  When the file cannot be opened for reading and writing, line 240 takes it for missing:
  if the operating system grants it, a file that exists is emptied there.
\<close>

lemma open_file_refused:
  assumes "\<not> is_open (file_stream w)" and "\<not> open_ok env"
  shows "open_file env e fname w =
           (FILE_IO_ERROR,
            if create_ok env
            then w\<lparr>file_stream := \<lparr>is_open = False, path = fname, state = Failed, pos = 0\<rparr>,
                   filename := fname, disk := (disk w)(fname \<mapsto> [])\<rparr>
            else w\<lparr>file_stream := (file_stream w)\<lparr>state := Failed\<rparr>, filename := fname\<rparr>)"
  using assms
  by (simp add: open_file_def stream_defs PAGE_SIZE_def)

lemma open_file_not_created:
  assumes "\<not> is_open (file_stream w)" and "disk w fname = None" and "\<not> create_ok env"
  shows "open_file env e fname w =
           (FILE_IO_ERROR,
            w\<lparr>file_stream := (file_stream w)\<lparr>state := Failed\<rparr>, filename := fname\<rparr>)"
  using assms
  by (simp add: open_file_def stream_defs PAGE_SIZE_def)

lemma open_file_existing:
  assumes "\<not> is_open (file_stream w)" and "open_ok env" and "disk w fname = Some c"
  shows "open_file env e fname w =
           (if \<not> seek_ok env
            then (FILE_IO_ERROR,
                  w\<lparr>file_stream := \<lparr>is_open = True, path = fname, state = Failed, pos = 0\<rparr>,
                    filename := fname\<rparr>)
            else if length c mod 4096 \<noteq> 0
            then (FILE_IO_ERROR,
                  w\<lparr>file_stream := \<lparr>is_open = True, path = fname, state = Good, pos = length c\<rparr>,
                    filename := fname\<rparr>)
            else (SUCCESS,
                  w\<lparr>file_stream := \<lparr>is_open = True, path = fname, state = Good, pos = length c\<rparr>,
                    filename := fname, pageCount := of_nat (length c div 4096)\<rparr>))"
  using assms
  by (simp add: open_file_def stream_defs PAGE_SIZE_def)

lemma open_file_create:
  assumes "\<not> is_open (file_stream w)" and "open_ok env" and "create_ok env"
    and "disk w fname = None" and "seek_ok env" and "write_ok env"
  shows "open_file env e fname w =
           (SUCCESS,
            w\<lparr>file_stream := \<lparr>is_open = True, path = fname, state = Good, pos = 4096\<rparr>,
              filename := fname, pageCount := 1,
              disk := (disk w)(fname \<mapsto> object_bytes e MAGIC_NUMBER @ replicate 4092 0)\<rparr>)"
  using assms
  by (simp add: open_file_def stream_defs PAGE_SIZE_def header_bytes pwrite_def)

text \<open>Lines 256-258 do not look at the stream: \<^verbatim>\<open>SUCCESS\<close> also when the header was not written.\<close>

lemma open_file_header_not_written:
  assumes "\<not> is_open (file_stream w)" and "open_ok env" and "create_ok env"
    and "disk w fname = None" and "\<not> seek_ok env"
  shows "open_file env e fname w =
           (SUCCESS,
            w\<lparr>file_stream := \<lparr>is_open = True, path = fname, state = Failed, pos = 0\<rparr>,
              filename := fname, pageCount := 1,
              disk := (disk w)(fname \<mapsto> [])\<rparr>)"
  using assms
  by (simp add: open_file_def stream_defs PAGE_SIZE_def)

subsection \<open>writePage and readPage\<close>

lemma writePage_invalid:
  assumes "\<not> is_open (file_stream w) \<or> buffer = None \<or> pageCount w \<le> n"
  shows "writePage env n buffer w = (INVALID_INPUT, w)"
  using assms by (auto simp add: writePage_def)

lemma writePage_failed_stream:
  assumes "is_open (file_stream w)" and "n < pageCount w" and "state (file_stream w) \<noteq> Good"
  shows "writePage env n (Some b) w = (FILE_IO_ERROR, w)"
  using assms by (simp add: writePage_def stream_defs)

lemma writePage_good:
  assumes "is_open (file_stream w)" and "n < pageCount w" and "state (file_stream w) = Good"
  shows "writePage env n (Some b) w =
           (if \<not> seek_ok env
            then (FILE_IO_ERROR, w\<lparr>file_stream := (file_stream w)\<lparr>state := Failed\<rparr>\<rparr>)
            else case disk w (path (file_stream w)) of
              None \<Rightarrow>
                (FILE_IO_ERROR,
                 w\<lparr>file_stream :=
                     (file_stream w)\<lparr>pos := unat (n * PAGE_SIZE), state := Failed\<rparr>\<rparr>)
            | Some c \<Rightarrow>
                if write_ok env
                then
                  (SUCCESS,
                   w\<lparr>file_stream :=
                       (file_stream w)\<lparr>pos := unat (n * PAGE_SIZE) + length (take 4096 b)\<rparr>,
                     disk := (disk w)(path (file_stream w) \<mapsto>
                                pwrite c (unat (n * PAGE_SIZE)) (take 4096 b))\<rparr>)
                else
                  (let part = take (moved env) (butlast (take 4096 b))
                   in (FILE_IO_ERROR,
                       w\<lparr>file_stream :=
                           (file_stream w)\<lparr>pos := unat (n * PAGE_SIZE) + length part,
                              state := Failed\<rparr>,
                         disk := (if part = [] then disk w
                                  else (disk w)(path (file_stream w) \<mapsto>
                                          pwrite c (unat (n * PAGE_SIZE)) part))\<rparr>)))"
  using assms by (simp add: writePage_def stream_defs PAGE_SIZE_def not_le split: option.splits)

lemma readPage_invalid:
  assumes "\<not> is_open (file_stream w) \<or> buffer = None \<or> pageCount w \<le> n"
  shows "readPage env n buffer w = (INVALID_INPUT, buffer, w)"
  using assms by (auto simp add: readPage_def)

lemma readPage_failed_stream:
  assumes "is_open (file_stream w)" and "n < pageCount w" and "state (file_stream w) \<noteq> Good"
  shows "readPage env n (Some b) w =
           (FILE_IO_ERROR, Some b, w\<lparr>file_stream := (file_stream w)\<lparr>state := Failed\<rparr>\<rparr>)"
  using assms by (cases "state (file_stream w)") (simp_all add: readPage_def stream_defs)

lemma readPage_good:
  assumes "is_open (file_stream w)" and "n < pageCount w" and "state (file_stream w) = Good"
  shows "readPage env n (Some b) w =
           (if \<not> seek_ok env
            then (FILE_IO_ERROR, Some b,
                  w\<lparr>file_stream := (file_stream w)\<lparr>state := Failed\<rparr>\<rparr>)
            else case disk w (path (file_stream w)) of
              None \<Rightarrow>
                (FILE_IO_ERROR, Some b,
                 w\<lparr>file_stream :=
                     (file_stream w)\<lparr>pos := unat (n * PAGE_SIZE), state := Failed\<rparr>\<rparr>)
            | Some c \<Rightarrow>
                (let got = take 4096 (drop (unat (n * PAGE_SIZE)) c)
                 in if read_ok env
                    then
                      (SUCCESS, Some (got @ drop (length got) b),
                       w\<lparr>file_stream :=
                           (file_stream w)\<lparr>pos := unat (n * PAGE_SIZE) + length got,
                              state := (if length got < 4096 then FailedEof else Good)\<rparr>\<rparr>)
                    else
                      (let part = take (moved env) (butlast got)
                       in (FILE_IO_ERROR, Some (part @ drop (length part) b),
                           w\<lparr>file_stream :=
                               (file_stream w)\<lparr>pos := unat (n * PAGE_SIZE) + length part,
                                  state := Failed\<rparr>\<rparr>))))"
  using assms by (simp add: readPage_def stream_defs PAGE_SIZE_def not_le split: option.splits)

subsection \<open>allocatePage\<close>

lemma allocatePage_closed:
  assumes "\<not> is_open (file_stream w)"
  shows "allocatePage env pn w = (FILE_IO_ERROR, pn, w)"
  using assms by (simp add: allocatePage_def)

lemma allocatePage_open:
  assumes "is_open (file_stream w)"
  shows "allocatePage env pn w =
           (case writePage env (pageCount w) (Some (replicate 4096 0))
                   (w\<lparr>pageCount := pageCount w + 1\<rparr>) of
              (rc, w2) \<Rightarrow> (rc, pageCount w, w2))"
  using assms by (simp add: allocatePage_def writeZeroPage_def PAGE_SIZE_def Let_def)

subsection \<open>The example states, evaluated\<close>

lemma created_db_eq:
  "created_db =
     \<lparr>file_stream = \<lparr>is_open = True, path = ''tinydb_test.db'', state = Good, pos = 4096\<rparr>,
      filename = ''tinydb_test.db'', pageCount = 1,
      disk = [''tinydb_test.db'' \<mapsto> [0x78, 0x56, 0x34, 0x12] @ replicate 4092 0]\<rparr>"
  by (simp add: created_db_def open_file_create fresh_def no_faults_def magic_bytes_le)

lemma stale_count_db_eq:
  "stale_count_db =
     \<lparr>file_stream = \<lparr>is_open = True, path = ''b.db'', state = Good, pos = 5000\<rparr>,
      filename = ''b.db'', pageCount = 2, disk = two_files\<rparr>"
  by (simp add: stale_count_db_def open_file_existing fresh_def no_faults_def two_files_def
      close_def fstream_close_def)

subsection \<open>The 4 GiB database, evaluated\<close>

lemma length_four_gib_file: "length four_gib_file = 4294967296"
  by (simp add: four_gib_file_def)

lemma four_gib_db_eq:
  "four_gib_db =
     \<lparr>file_stream = \<lparr>is_open = True, path = ''big.db'', state = Good, pos = 4294967296\<rparr>,
      filename = ''big.db'', pageCount = 1048576, disk = [''big.db'' \<mapsto> four_gib_file]\<rparr>"
  by (simp add: four_gib_db_def open_file_existing fresh_def no_faults_def
      length_four_gib_file)

lemma pwrite_four_gib_file:
  "pwrite four_gib_file 0 (replicate 4096 x) = replicate 4096 x @ replicate 4294963200 0"
  by (simp add: pwrite_def four_gib_file_def)

lemma four_gib_db_allocated_eq:
  "four_gib_db_allocated =
     \<lparr>file_stream = \<lparr>is_open = True, path = ''big.db'', state = Good, pos = 4096\<rparr>,
      filename = ''big.db'', pageCount = 1048577,
      disk = [''big.db'' \<mapsto> replicate 4096 0 @ replicate 4294963200 0]\<rparr>"
  by (simp add: four_gib_db_allocated_def four_gib_db_eq allocatePage_open writePage_good
      no_faults_def PAGE_SIZE_def pwrite_four_gib_file)

lemma four_gib_db_written_eq:
  "four_gib_db_written =
     \<lparr>file_stream = \<lparr>is_open = True, path = ''big.db'', state = Good, pos = 4096\<rparr>,
      filename = ''big.db'', pageCount = 1048577,
      disk = [''big.db'' \<mapsto> replicate 4096 0xAA @ replicate 4294963200 0]\<rparr>"
  by (simp add: four_gib_db_written_def four_gib_db_allocated_eq writePage_good
      no_faults_def PAGE_SIZE_def pwrite_def)

lemma four_gib_db_reopened_eq:
  "four_gib_db_reopened =
     \<lparr>file_stream = \<lparr>is_open = True, path = ''big.db'', state = Good, pos = 4294967296\<rparr>,
      filename = ''big.db'', pageCount = 1048576,
      disk = [''big.db'' \<mapsto> replicate 4096 0xAA @ replicate 4294963200 0]\<rparr>"
  by (simp add: four_gib_db_reopened_def four_gib_db_written_eq open_file_existing
      no_faults_def close_def fstream_close_def)

section \<open>Page count and file size along a sequence of calls\<close>

lemma length_pwrite: "length (pwrite c off d) = max (length c) (off + length d)"
  by (simp add: pwrite_def) 

lemma unat_page_offset: "unat n < 2 ^ 20 \<Longrightarrow> unat (n * PAGE_SIZE) = unat n * 4096"
  by (simp add: PAGE_SIZE_def unat_word_ariths)

lemma freePage_frame: "snd (freePage n w) = w"
  by (simp add: freePage_def)

lemma readPage_frame:
  "disk (snd (snd (readPage env n buffer w))) = disk w
   \<and> pageCount (snd (snd (readPage env n buffer w))) = pageCount w
   \<and> is_open (file_stream (snd (snd (readPage env n buffer w)))) = is_open (file_stream w)
   \<and> path (file_stream (snd (snd (readPage env n buffer w)))) = path (file_stream w)"
proof (cases "\<not> is_open (file_stream w) \<or> buffer = None \<or> pageCount w \<le> n")
  case True
  then show ?thesis by (simp only: readPage_invalid) simp
next
  case False
  then obtain b where "buffer = Some b" "is_open (file_stream w)" "n < pageCount w"
    by (auto simp add: not_le)
  then show ?thesis
    by (cases "state (file_stream w) = Good")
      (simp_all add: readPage_good readPage_failed_stream Let_def split: option.splits)
qed

lemma open_file_frame:
  assumes "is_open (file_stream w)"
  shows "disk (snd (open_file env e fname w)) = disk w
   \<and> pageCount (snd (open_file env e fname w)) = pageCount w
   \<and> is_open (file_stream (snd (open_file env e fname w)))
   \<and> path (file_stream (snd (open_file env e fname w))) = path (file_stream w)"
  using assms by (simp add: open_file_on_open_stream)

lemma writePage_frame:
  "pageCount (snd (writePage env n buffer w)) = pageCount w
   \<and> is_open (file_stream (snd (writePage env n buffer w))) = is_open (file_stream w)
   \<and> path (file_stream (snd (writePage env n buffer w))) = path (file_stream w)"
proof (cases "\<not> is_open (file_stream w) \<or> buffer = None \<or> pageCount w \<le> n")
  case True
  then show ?thesis by (simp only: writePage_invalid) simp
next
  case False
  then obtain b where "buffer = Some b" "is_open (file_stream w)" "n < pageCount w"
    by (auto simp add: not_le)
  then show ?thesis
    by (cases "state (file_stream w) = Good")
      (simp_all add: writePage_good writePage_failed_stream split: option.splits)
qed

lemma writePage_file_size:
  assumes "file_size w = Some sz"
  shows "file_size (snd (writePage env n buffer w)) = Some sz
         \<or> (n < pageCount w
             \<and> (\<exists>k \<le> 4096. file_size (snd (writePage env n buffer w))
                    = Some (max sz (unat (n * PAGE_SIZE) + k))))"
proof (cases "\<not> is_open (file_stream w) \<or> buffer = None \<or> pageCount w \<le> n")
  case True
  with assms show ?thesis by (simp only: writePage_invalid) simp
next
  case False
  then obtain b where b: "buffer = Some b" "is_open (file_stream w)" "n < pageCount w"
    by (auto simp add: not_le)
  from assms obtain c where c: "disk w (path (file_stream w)) = Some c" "length c = sz"
    by (auto simp add: file_size_def)
  show ?thesis
  proof (cases "state (file_stream w) = Good")
    case False
    with b assms show ?thesis
      by (simp add: writePage_failed_stream)
  next
    case good: True
    show ?thesis
    proof (cases "seek_ok env")
      case False
      with b good assms show ?thesis
        by (simp add: writePage_good file_size_def)
    next
      case seek: True
      show ?thesis
      proof (cases "write_ok env")
        case True
        have "min (length b) 4096 \<le> 4096" by simp
        moreover from True b good seek c
        have "file_size (snd (writePage env n buffer w))
                = Some (max sz (unat (n * PAGE_SIZE) + min (length b) 4096))"
          by (simp add: writePage_good file_size_def length_pwrite)
        ultimately show ?thesis using b(3) by blast
      next
        case False
        let ?part = "take (moved env) (butlast (take 4096 b))"
        show ?thesis
        proof (cases "?part = []")
          case True
          with False b good seek c show ?thesis
            by (simp add: writePage_good file_size_def Let_def)
        next
          case part: False
          have "length ?part \<le> 4096" by simp
          moreover from part False b good seek c
          have "file_size (snd (writePage env n buffer w))
                  = Some (max sz (unat (n * PAGE_SIZE) + length ?part))"
            by (simp add: writePage_good file_size_def length_pwrite Let_def)
          ultimately show ?thesis using b(3) by blast
        qed
      qed
    qed
  qed
qed

lemma perform_stays_open:
  assumes "is_open (file_stream w)"
  shows "is_open (file_stream (snd (perform env c w)))
         \<and> path (file_stream (snd (perform env c w))) = path (file_stream w)"
proof (cases c)
  case (Open e fname)
  with assms show ?thesis by (simp add: open_file_frame)
next
  case (ReadPage n buffer)
  with assms show ?thesis by (simp add: readPage_frame case_prod_unfold)
next
  case (WritePage n buffer)
  with assms show ?thesis by (simp add: writePage_frame)
next
  case (AllocatePage pn)
  with assms show ?thesis
    by (simp add: allocatePage_open writePage_frame case_prod_unfold)
next
  case (FreePage n)
  with assms show ?thesis by (simp add: freePage_frame)
qed

lemma perform_pageCount:
  assumes "is_open (file_stream w)"
  shows "pageCount (snd (perform env c w))
           = (if is_allocate c then pageCount w + 1 else pageCount w)"
proof (cases c)
  case (Open e fname)
  with assms show ?thesis by (simp add: open_file_frame)
next
  case (ReadPage n buffer)
  with assms show ?thesis by (simp add: readPage_frame case_prod_unfold)
next
  case (WritePage n buffer)
  with assms show ?thesis by (simp add: writePage_frame)
next
  case (AllocatePage pn)
  with assms show ?thesis
    by (simp add: allocatePage_open writePage_frame case_prod_unfold)
next
  case (FreePage n)
  with assms show ?thesis by (simp add: freePage_frame)
qed

lemma allocate_success_below_max:
  assumes "is_open (file_stream w)" and "fst (perform env (AllocatePage pn) w) = SUCCESS"
  shows "pageCount w \<noteq> - 1"
proof
  assume "pageCount w = - 1"
  with assms show False
    by (simp add: allocatePage_open writePage_invalid)
qed

lemma perform_mono:
  assumes "is_open (file_stream w)"
    and "if is_allocate c then fst (perform env c w) = SUCCESS else True"
  shows "unat (pageCount w) \<le> unat (pageCount (snd (perform env c w)))"
proof (cases "is_allocate c")
  case True
  then obtain pn where c: "c = AllocatePage pn" by (cases c) simp_all
  with assms have "pageCount w \<noteq> - 1"
    using allocate_success_below_max by simp
  then have "unat (pageCount w + 1) = unat (pageCount w) + 1"
    by (rule unat_succ)
  with assms(1) True show ?thesis
    by (simp add: perform_pageCount)
next
  case False
  with assms(1) show ?thesis by (simp add: perform_pageCount)
qed

lemma perform_consistent:
  assumes "consistent w"
    and "if is_allocate c then fst (perform env c w) = SUCCESS else True"
    and "unat (pageCount (snd (perform env c w))) \<le> 2 ^ 20"
  shows "consistent (snd (perform env c w))"
proof -
  from assms(1) have opened: "is_open (file_stream w)"
    and size: "file_size w = Some (unat (pageCount w) * 4096)"
    by (simp_all add: consistent_def PAGE_SIZE_def)
  show ?thesis
  proof (cases c)
    case (Open e fname)
    with opened size show ?thesis
      by (simp add: consistent_def file_size_def open_file_frame PAGE_SIZE_def)
  next
    case (ReadPage n buffer)
    with opened size show ?thesis
      by (simp add: consistent_def file_size_def readPage_frame case_prod_unfold PAGE_SIZE_def)
  next
    case (FreePage n)
    with assms(1) show ?thesis by (simp add: freePage_frame)
  next
    case (WritePage n buffer)
    from assms(3) WritePage have bound: "unat (pageCount w) \<le> 2 ^ 20"
      by (simp add: writePage_frame)
    from writePage_file_size [OF size, of env n buffer]
    have "file_size (snd (writePage env n buffer w)) = Some (unat (pageCount w) * 4096)"
    proof
      assume "n < pageCount w
        \<and> (\<exists>k\<le>4096. file_size (snd (writePage env n buffer w))
              = Some (max (unat (pageCount w) * 4096) (unat (n * PAGE_SIZE) + k)))"
      then obtain k where k: "k \<le> 4096" "n < pageCount w"
        "file_size (snd (writePage env n buffer w))
              = Some (max (unat (pageCount w) * 4096) (unat (n * PAGE_SIZE) + k))"
        by blast
      from k(2) have lt: "unat n < unat (pageCount w)"
        by (simp add: word_less_nat_alt)
      with bound have "unat (n * PAGE_SIZE) = unat n * 4096"
        by (simp add: unat_page_offset)
      with k lt show ?thesis by simp
    qed simp
    with opened WritePage show ?thesis
      by (simp add: consistent_def writePage_frame PAGE_SIZE_def)
  next
    case (AllocatePage pn)
    with assms(2) have ok: "fst (perform env (AllocatePage pn) w) = SUCCESS" by simp
    with opened have nomax: "pageCount w \<noteq> - 1"
      by (rule allocate_success_below_max)
    then have succ: "unat (pageCount w + 1) = unat (pageCount w) + 1"
      by (rule unat_succ)
    from perform_pageCount [OF opened, of env c] assms(3) AllocatePage
    have "unat (pageCount w + 1) \<le> 2 ^ 20"
      by (simp del: perform.simps)
    with succ have below: "unat (pageCount w) < 2 ^ 20" by simp
    then have off: "unat (pageCount w * PAGE_SIZE) = unat (pageCount w) * 4096"
      by (rule unat_page_offset)
    from nomax have lt: "pageCount w < pageCount w + 1"
      by (simp add: word_less_succ)
    from size obtain c' where c': "disk w (path (file_stream w)) = Some c'"
      "length c' = unat (pageCount w) * 4096"
      by (auto simp add: file_size_def)
    from ok opened lt c' have good: "state (file_stream w) = Good"
      by (cases "state (file_stream w) = Good")
        (simp_all add: allocatePage_open writePage_failed_stream)
    from ok opened lt c' good off succ AllocatePage show ?thesis
      by (simp add: allocatePage_open writePage_good consistent_def file_size_def
          length_pwrite PAGE_SIZE_def split: if_splits)
  qed
qed

lemma run_stays_open:
  "is_open (file_stream w) \<Longrightarrow> is_open (file_stream (run cs w))"
proof (induction cs arbitrary: w)
  case Nil
  then show ?case by simp
next
  case (Cons a cs)
  obtain env c where a: "a = (env, c)" by (cases a)
  from Cons.prems have "is_open (file_stream (snd (perform env c w)))"
    by (simp add: perform_stays_open)
  with Cons.IH a show ?case by simp
qed

lemma run_mono:
  "is_open (file_stream w) \<Longrightarrow> allocations_succeed cs w
     \<Longrightarrow> unat (pageCount w) \<le> unat (pageCount (run cs w))"
proof (induction cs arbitrary: w)
  case Nil
  then show ?case by simp
next
  case (Cons a cs)
  obtain env c where a: "a = (env, c)" by (cases a)
  from Cons.prems a have step: "if is_allocate c then fst (perform env c w) = SUCCESS else True"
    and rest: "allocations_succeed cs (snd (perform env c w))"
    by simp_all
  from Cons.prems(1) have opened: "is_open (file_stream (snd (perform env c w)))"
    by (simp add: perform_stays_open)
  from Cons.prems(1) step
  have "unat (pageCount w) \<le> unat (pageCount (snd (perform env c w)))"
    by (rule perform_mono)
  also from opened rest
  have "\<dots> \<le> unat (pageCount (run cs (snd (perform env c w))))"
    by (rule Cons.IH)
  finally show ?case using a by simp
qed

lemma run_consistent:
  "consistent w \<Longrightarrow> allocations_succeed cs w \<Longrightarrow> unat (pageCount (run cs w)) \<le> 2 ^ 20
     \<Longrightarrow> consistent (run cs w)"
proof (induction cs arbitrary: w)
  case Nil
  then show ?case by simp
next
  case (Cons a cs)
  obtain env c where a: "a = (env, c)" by (cases a)
  let ?w1 = "snd (perform env c w)"
  from Cons.prems a have step: "if is_allocate c then fst (perform env c w) = SUCCESS else True"
    and rest: "allocations_succeed cs ?w1"
    and final: "unat (pageCount (run cs ?w1)) \<le> 2 ^ 20"
    by simp_all
  from Cons.prems(1) have "is_open (file_stream w)"
    by (simp add: consistent_def)
  then have "is_open (file_stream ?w1)"
    by (simp add: perform_stays_open)
  from this rest have "unat (pageCount ?w1) \<le> unat (pageCount (run cs ?w1))"
    by (rule run_mono)
  with final have "unat (pageCount ?w1) \<le> 2 ^ 20" by simp
  with Cons.prems(1) step have "consistent ?w1"
    by (rule perform_consistent)
  from this rest final have "consistent (run cs ?w1)"
    by (rule Cons.IH)
  with a show ?case by simp
qed

lemma open_file_consistent:
  assumes "\<not> is_open (file_stream w0)"
    and "open_file env e fname w0 = (SUCCESS, w)"
    and "seek_ok env" and "write_ok env"
    and "case disk w0 fname of None \<Rightarrow> True | Some c \<Rightarrow> length c \<le> 2 ^ 32"
  shows "consistent w"
proof (cases "open_ok env")
  case False
  with assms(1,2) show ?thesis by (simp add: open_file_refused)
next
  case granted: True
  show ?thesis
  proof (cases "disk w0 fname")
    case None
    show ?thesis
    proof (cases "create_ok env")
      case True
      with assms granted None show ?thesis
        by (auto simp add: open_file_create consistent_def file_size_def PAGE_SIZE_def)
    next
      case False
      with assms(1,2) None show ?thesis by (simp add: open_file_not_created)
    qed
  next
    case (Some c)
    with assms(5) have "length c div 4096 < 2 ^ 32" by simp
    then have "unat (of_nat (length c div 4096) :: u32) = length c div 4096"
      by (simp add: unat_of_nat)
    with assms Some granted show ?thesis
      by (auto simp add: open_file_existing consistent_def file_size_def PAGE_SIZE_def
          split: if_splits)
  qed
qed

lemma failed_allocation_is_counted:
  "fst (allocatePage write_cut_short 0 created_db) = FILE_IO_ERROR
   \<and> getPageCount (snd (snd (allocatePage write_cut_short 0 created_db))) = 2
   \<and> file_size (snd (snd (allocatePage write_cut_short 0 created_db))) = Some 6000"
  by (simp add: created_db_eq allocatePage_open writePage_good write_cut_short_def
      getPageCount_def file_size_def length_pwrite butlast_conv_take Let_def PAGE_SIZE_def)

lemma run_demo_calls:
  "run demo_calls created_db =
     \<lparr>file_stream = \<lparr>is_open = True, path = ''tinydb_test.db'', state = Failed, pos = 6000\<rparr>,
      filename = ''other.db'', pageCount = 2,
      disk = [''tinydb_test.db'' \<mapsto>
                ([0x78, 0x56, 0x34, 0x12] @ replicate 4092 0)
                @ replicate 1904 0x55 @ replicate 2192 0xAA]\<rparr>"
  by (simp add: demo_calls_def created_db_eq allocatePage_open writePage_good
      writePage_failed_stream readPage_failed_stream freePage_def open_file_on_open_stream
      no_faults_def write_cut_short_def PAGE_SIZE_def pwrite_def butlast_conv_take Let_def)

lemma allocations_succeed_demo_calls: "allocations_succeed demo_calls created_db"
  by (simp add: demo_calls_def created_db_eq allocatePage_open writePage_good
      no_faults_def PAGE_SIZE_def pwrite_def)

section \<open>Allocation and round trip while the file is below 4 GiB\<close>

text \<open>
  While the page count is below \<open>2\<^sup>2\<^sup>0\<close> the byte offset of a page fits 32 bits: an
  allocation appends a page of zeros, and a page that is written, then read after the file
  was closed and opened again, comes back as it was written.
\<close>

text \<open>
  A call of \<^verbatim>\<open>allocatePage\<close> that returns \<^verbatim>\<open>SUCCESS\<close> returns the page count it found
  and leaves the page count one higher, at any size of the file.
\<close>

lemma allocatePage_success_numbers:
  assumes "fst (allocatePage env pn w) = SUCCESS"
  shows "fst (snd (allocatePage env pn w)) = pageCount w
         \<and> getPageCount (snd (snd (allocatePage env pn w))) = pageCount w + 1
         \<and> unat (pageCount w + 1) = unat (pageCount w) + 1"
proof -
  from assms have opened: "is_open (file_stream w)"
    by (cases "is_open (file_stream w)") (simp_all add: allocatePage_closed)
  from assms have "fst (perform env (AllocatePage pn) w) = SUCCESS"
    by (simp add: case_prod_unfold)
  with opened have "pageCount w \<noteq> - 1"
    by (rule allocate_success_below_max)
  then have "unat (pageCount w + 1) = unat (pageCount w) + 1"
    by (rule unat_succ)
  with opened show ?thesis
    by (simp add: allocatePage_open writePage_frame case_prod_unfold getPageCount_def)
qed

lemma below_max:
  assumes "unat (pc :: u32) < 2 ^ 20"
  shows "pc \<noteq> - 1"
proof
  assume "pc = - 1"
  also have "(- 1 :: u32) = 4294967295" by simp
  finally have "unat pc = 4294967295" by simp
  with assms show False by simp
qed

lemma allocatePage_appends_below_4GiB:
  assumes "consistent w" and "unat (pageCount w) < 2 ^ 20"
    and "\<not> fail (file_stream w)" and "seek_ok env" and "write_ok env"
    and "disk w (path (file_stream w)) = Some c"
  shows "fst (allocatePage env pn w) = SUCCESS
         \<and> fst (snd (allocatePage env pn w)) = pageCount w
         \<and> getPageCount (snd (snd (allocatePage env pn w))) = pageCount w + 1
         \<and> unat (pageCount w + 1) = unat (pageCount w) + 1
         \<and> disk (snd (snd (allocatePage env pn w)))
             = (disk w)(path (file_stream w) \<mapsto> c @ replicate 4096 0)"
proof -
  from assms(1,6) have opened: "is_open (file_stream w)"
    and len: "length c = unat (pageCount w) * 4096"
    by (simp_all add: consistent_def file_size_def PAGE_SIZE_def)
  from assms(2) have nomax: "pageCount w \<noteq> - 1"
    by (rule below_max)
  then have lt: "pageCount w < pageCount w + 1"
    and succ: "unat (pageCount w + 1) = unat (pageCount w) + 1"
    by (simp_all add: word_less_succ unat_succ)
  from assms(2) have off: "unat (pageCount w * PAGE_SIZE) = unat (pageCount w) * 4096"
    by (rule unat_page_offset)
  from assms(3) have good: "state (file_stream w) = Good"
    by (simp add: fail_def)
  from opened lt good off len succ assms(4-6) show ?thesis
    by (simp add: allocatePage_open writePage_good getPageCount_def pwrite_def)
qed

lemma round_trip_below_4GiB:
  assumes "consistent w" and "unat (pageCount w) \<le> 2 ^ 20"
    and "\<not> fail (file_stream w)" and "n < pageCount w"
    and "length b = 4096" and "length buf = 4096"
    and "writePage no_faults n (Some b) w = (rc1, w1)"
    and "close w1 = (rc2, w2)"
    and "open_file no_faults e (path (file_stream w)) w2 = (rc3, w3)"
    and "readPage no_faults n (Some buf) w3 = (rc4, buf', w4)"
  shows "rc1 = SUCCESS \<and> rc2 = SUCCESS \<and> rc3 = SUCCESS \<and> rc4 = SUCCESS \<and> buf' = Some b"
proof -
  from assms(1) obtain c where opened: "is_open (file_stream w)"
    and c: "disk w (path (file_stream w)) = Some c"
    and len: "length c = unat (pageCount w) * 4096"
    by (auto simp add: consistent_def file_size_def PAGE_SIZE_def)
  from assms(3) have good: "state (file_stream w) = Good"
    by (simp add: fail_def)
  from assms(4) have lt: "unat n < unat (pageCount w)"
    by (simp add: word_less_nat_alt)
  with assms(2) have off: "unat (n * PAGE_SIZE) = unat n * 4096"
    by (simp add: unat_page_offset)
  from lt len have inside: "unat n * 4096 + 4096 \<le> length c" by simp
  let ?c' = "pwrite c (unat n * 4096) b"
  from inside assms(5) have len': "length ?c' = length c"
    by (simp add: length_pwrite)
  from inside assms(5) have same: "take 4096 (drop (unat n * 4096) ?c') = b"
    by (simp add: pwrite_def)
  from assms(7) opened good c off assms(4,5)
  have w1: "rc1 = SUCCESS"
    "w1 = w\<lparr>file_stream := (file_stream w)\<lparr>pos := unat n * 4096 + 4096\<rparr>,
            disk := (disk w)(path (file_stream w) \<mapsto> ?c')\<rparr>"
    by (simp_all add: writePage_good no_faults_def)
  from assms(8) w1 opened
  have w2: "rc2 = SUCCESS"
    "w2 = w\<lparr>file_stream := (file_stream w)\<lparr>pos := unat n * 4096 + 4096, is_open := False\<rparr>,
            disk := (disk w)(path (file_stream w) \<mapsto> ?c')\<rparr>"
    by (auto simp add: close_def fstream_close_def)
  from len have "length c mod 4096 = 0" "length c div 4096 = unat (pageCount w)"
    by simp_all
  with assms(9) w2 len'
  have w3: "rc3 = SUCCESS"
    "w3 = w\<lparr>disk := (disk w)(path (file_stream w) \<mapsto> ?c'),
            file_stream := \<lparr>is_open = True, path = path (file_stream w), state = Good,
                              pos = length c\<rparr>,
            filename := path (file_stream w)\<rparr>"
    by (auto simp add: open_file_existing [where c = ?c'] no_faults_def)
  let ?w3 = "w\<lparr>disk := (disk w)(path (file_stream w) \<mapsto> ?c'),
            file_stream := \<lparr>is_open = True, path = path (file_stream w), state = Good,
                              pos = length c\<rparr>,
            filename := path (file_stream w)\<rparr>"
  from readPage_good [of ?w3 n no_faults buf] assms(4,5,6) off same
  have "fst (readPage no_faults n (Some buf) ?w3) = SUCCESS
        \<and> fst (snd (readPage no_faults n (Some buf) ?w3)) = Some b"
    by (simp add: no_faults_def Let_def)
  with assms(10) w3 have "rc4 = SUCCESS" "buf' = Some b"
    by simp_all
  with w1 w2 w3 show ?thesis by simp
qed

section \<open>open on a file that does not hold whole pages\<close>

text \<open>
  When the path names a file whose size is not a multiple of 4096 bytes, \<^verbatim>\<open>open\<close> returns
  \<^verbatim>\<open>FILE_IO_ERROR\<close> and leaves every file as it was, whatever the state of the stream and
  whether positioning succeeds or not, provided the operating system lets the file be
  opened for reading and writing, or the stream of the manager is open already, or the
  operating system refuses to create files.
\<close>

lemma open_rejects_partial_page:
  assumes "disk w fname = Some c" and "length c mod 4096 \<noteq> 0"
    and "is_open (file_stream w) \<or> open_ok env \<or> \<not> create_ok env"
  shows "fst (open_file env e fname w) = FILE_IO_ERROR
         \<and> disk (snd (open_file env e fname w)) = disk w"
proof (cases "is_open (file_stream w)")
  case True
  then show ?thesis by (simp add: open_file_on_open_stream)
next
  case closed: False
  show ?thesis
  proof (cases "open_ok env")
    case True
    with closed assms show ?thesis by (simp add: open_file_existing)
  next
    case False
    with closed assms(3) show ?thesis by (simp add: open_file_refused)
  qed
qed

section \<open>The claims\<close>

text \<open>
  C1. When the path names no file, the stream of the manager is closed, and the operating
  system grants the requests (opening, creating, positioning, writing), \<^verbatim>\<open>open\<close> returns
  \<^verbatim>\<open>SUCCESS\<close>, leaves the page count 1 and creates a file of 4096 bytes: the object
  representation of the magic number \<open>0x12345678\<close>, which reads back as the magic number
  in the platform's byte order, and 4092 zero bytes. No other file changes.
\<close>

theorem open_creates_header_page:
  assumes "disk w fname = None" and "\<not> is_open (file_stream w)"
    and "open_ok env" and "create_ok env" and "seek_ok env" and "write_ok env"
    and "open_file env e fname w = (rc, w')"
  shows "rc = SUCCESS \<and> getPageCount w' = 1
         \<and> disk w' = (disk w)(fname \<mapsto> object_bytes e MAGIC_NUMBER @ replicate 4092 0)
         \<and> length (object_bytes e MAGIC_NUMBER @ replicate 4092 0) = 4096
         \<and> load_u32 e (object_bytes e MAGIC_NUMBER) = MAGIC_NUMBER"
proof -
  have "load_u32 e (object_bytes e MAGIC_NUMBER) = MAGIC_NUMBER"
    by (cases e) (simp_all add: object_bytes_def MAGIC_NUMBER_def)
  with assms show ?thesis
    by (auto simp add: open_file_create getPageCount_def)
qed

theorem open_creates_header_page_witness:
  "fst (open_file no_faults LittleEndian ''tinydb_test.db'' (fresh Map.empty)) = SUCCESS
   \<and> getPageCount (snd (open_file no_faults LittleEndian ''tinydb_test.db'' (fresh Map.empty))) = 1
   \<and> disk (snd (open_file no_faults LittleEndian ''tinydb_test.db'' (fresh Map.empty)))
        ''tinydb_test.db'' = Some ([0x78, 0x56, 0x34, 0x12] @ replicate 4092 0)"
  using open_creates_header_page [of "fresh Map.empty" "''tinydb_test.db''" no_faults
      LittleEndian "fst (open_file no_faults LittleEndian ''tinydb_test.db'' (fresh Map.empty))"
      "snd (open_file no_faults LittleEndian ''tinydb_test.db'' (fresh Map.empty))"]
  by (simp add: fresh_def no_faults_def magic_bytes_le)

text \<open>
  C2. At a page count of \<open>2\<^sup>2\<^sup>0\<close> the claim fails on the code: \<^verbatim>\<open>open\<close> of the 4 GiB
  database succeeds with page count 1048576, and \<^verbatim>\<open>allocatePage\<close> returns \<^verbatim>\<open>SUCCESS\<close>
  and page number 1048576 and leaves the page count 1048577, but the file is as long as
  before: the offset \<^verbatim>\<open>pageNumber * PAGE_SIZE\<close> is 0 in 32 bits, and the page of zeros went
  over the header page, whose magic number is gone.
\<close>

theorem allocatePage_at_4GiB:
  "fst (open_file no_faults LittleEndian ''big.db'' (fresh [''big.db'' \<mapsto> four_gib_file]))
     = SUCCESS
   \<and> getPageCount four_gib_db = 1048576
   \<and> file_size four_gib_db = Some 4294967296
   \<and> fst (allocatePage no_faults 0 four_gib_db) = SUCCESS
   \<and> fst (snd (allocatePage no_faults 0 four_gib_db)) = 1048576
   \<and> getPageCount four_gib_db_allocated = 1048577
   \<and> file_size four_gib_db_allocated = Some 4294967296
   \<and> map_option (take 4) (disk four_gib_db ''big.db'') = Some [0x78, 0x56, 0x34, 0x12]
   \<and> map_option (take 4) (disk four_gib_db_allocated ''big.db'') = Some [0, 0, 0, 0]"
proof -
  have "fst (open_file no_faults LittleEndian ''big.db'' (fresh [''big.db'' \<mapsto> four_gib_file]))
     = SUCCESS"
    by (simp add: open_file_existing fresh_def no_faults_def length_four_gib_file)
  moreover have "fst (allocatePage no_faults 0 four_gib_db) = SUCCESS
     \<and> fst (snd (allocatePage no_faults 0 four_gib_db)) = 1048576"
    by (simp add: four_gib_db_eq allocatePage_open writePage_good no_faults_def)
  moreover have "map_option (take 4) (disk four_gib_db ''big.db'') = Some [0x78, 0x56, 0x34, 0x12]"
    by (simp add: four_gib_db_eq four_gib_file_def magic_bytes_le)
  moreover have "map_option (take 4) (disk four_gib_db_allocated ''big.db'') = Some [0, 0, 0, 0]"
    by (simp add: four_gib_db_allocated_eq replicate_4)
  ultimately show ?thesis
    by (simp add: four_gib_db_eq four_gib_db_allocated_eq getPageCount_def file_size_def
        length_four_gib_file)
qed

theorem allocatePage_at_4GiB_witness:
  "file_size four_gib_db_allocated = file_size four_gib_db
   \<and> getPageCount four_gib_db_allocated = getPageCount four_gib_db + 1"
  using allocatePage_at_4GiB by simp

text \<open>
  C3. For the page that \<^verbatim>\<open>allocatePage\<close> returns at a page count of \<open>2\<^sup>2\<^sup>0\<close> the claim
  fails on the code: the allocation and the \<^verbatim>\<open>writePage\<close> of page 1048576 succeed, and
  after \<^verbatim>\<open>close\<close> and \<^verbatim>\<open>open\<close> the page count is 1048576 again, the file not having
  grown, so that \<^verbatim>\<open>readPage\<close> of page 1048576 returns \<^verbatim>\<open>INVALID_INPUT\<close> and leaves the
  buffer as it was.
\<close>

theorem round_trip_at_4GiB:
  "fst (allocatePage no_faults 0 four_gib_db) = SUCCESS
   \<and> fst (snd (allocatePage no_faults 0 four_gib_db)) = 1048576
   \<and> fst (writePage no_faults 1048576 (Some (replicate 4096 0xAA)) four_gib_db_allocated)
       = SUCCESS
   \<and> fst (close four_gib_db_written) = SUCCESS
   \<and> fst (open_file no_faults LittleEndian ''big.db'' (snd (close four_gib_db_written)))
       = SUCCESS
   \<and> getPageCount four_gib_db_reopened = 1048576
   \<and> readPage no_faults 1048576 (Some (replicate 4096 0)) four_gib_db_reopened
       = (INVALID_INPUT, Some (replicate 4096 0), four_gib_db_reopened)"
proof -
  have "fst (allocatePage no_faults 0 four_gib_db) = SUCCESS
     \<and> fst (snd (allocatePage no_faults 0 four_gib_db)) = 1048576"
    by (simp add: four_gib_db_eq allocatePage_open writePage_good no_faults_def)
  moreover have
    "fst (writePage no_faults 1048576 (Some (replicate 4096 0xAA)) four_gib_db_allocated)
       = SUCCESS"
    by (simp add: four_gib_db_allocated_eq writePage_good no_faults_def)
  moreover have
    "fst (open_file no_faults LittleEndian ''big.db'' (snd (close four_gib_db_written)))
       = SUCCESS"
    by (simp add: four_gib_db_written_eq open_file_existing no_faults_def close_def
        fstream_close_def)
  moreover have "readPage no_faults 1048576 (Some (replicate 4096 0)) four_gib_db_reopened
       = (INVALID_INPUT, Some (replicate 4096 0), four_gib_db_reopened)"
    by (rule readPage_invalid) (simp add: four_gib_db_reopened_eq)
  ultimately show ?thesis
    by (simp add: close_def getPageCount_def four_gib_db_reopened_eq)
qed

theorem round_trip_at_4GiB_witness:
  "fst (readPage no_faults 1048576 (Some (replicate 4096 0)) four_gib_db_reopened) \<noteq> SUCCESS
   \<and> fst (snd (readPage no_faults 1048576 (Some (replicate 4096 0)) four_gib_db_reopened))
       \<noteq> Some (replicate 4096 0xAA)"
proof -
  have "replicate 4096 (0 :: byte) \<noteq> replicate 4096 0xAA"
    by (simp add: replicate_eq_replicate)
  with round_trip_at_4GiB show ?thesis by simp
qed

text \<open>
  C4, as claimed, fails: in \<open>stale_count_db\<close> page 1 is below the page count but the
  file ends 904 bytes into it. \<^verbatim>\<open>read\<close> fails there, with failbit and eofbit, and line 293
  lets a failure with eofbit pass: \<^verbatim>\<open>readPage\<close> returns \<^verbatim>\<open>SUCCESS\<close> with 904 bytes of the
  file in the buffer.
\<close>

theorem page_io_result_codes_counterexample:
  "fst (readPage no_faults 1 (Some (replicate 4096 0)) stale_count_db) = SUCCESS
   \<and> fail (file_stream (snd (snd (readPage no_faults 1 (Some (replicate 4096 0)) stale_count_db))))
   \<and> fst (snd (readPage no_faults 1 (Some (replicate 4096 0)) stale_count_db))
       = Some (replicate 904 7 @ replicate 3192 0)"
  by (simp add: stale_count_db_eq readPage_good no_faults_def two_files_def PAGE_SIZE_def
      fail_def)

text \<open>
  C4, amended. \<^verbatim>\<open>readPage\<close> and \<^verbatim>\<open>writePage\<close> return \<^verbatim>\<open>INVALID_INPUT\<close> and leave the
  stream, the buffer and the file system as they were when the stream is closed, the
  buffer is null or the page number is not below the page count. Otherwise they return
  \<^verbatim>\<open>FILE_IO_ERROR\<close> when the stream is in a failed state already, positioning fails or the
  file is gone; and when positioning succeeds, \<^verbatim>\<open>writePage\<close> returns \<^verbatim>\<open>FILE_IO_ERROR\<close> if
  the write fails and \<^verbatim>\<open>SUCCESS\<close> if not, and \<^verbatim>\<open>readPage\<close> returns \<^verbatim>\<open>FILE_IO_ERROR\<close> if the
  transfer fails and \<^verbatim>\<open>SUCCESS\<close> if not, also when the file ends before the page does.
  With \<^verbatim>\<open>SUCCESS\<close> the buffer starts with the bytes of the file from the page's offset on,
  up to 4096 of them, and the rest of the buffer is as it was; when the file ends before
  the page does these are fewer than 4096 bytes, and eofbit is set.
\<close>

theorem page_io_result_codes:
  "(\<not> is_open (file_stream w) \<or> buffer = None \<or> pageCount w \<le> n \<longrightarrow>
      readPage env n buffer w = (INVALID_INPUT, buffer, w)
      \<and> writePage env n buffer w = (INVALID_INPUT, w))
   \<and> (is_open (file_stream w) \<and> buffer = Some b \<and> n < pageCount w \<longrightarrow>
        (fail (file_stream w) \<or> \<not> seek_ok env \<or> disk w (path (file_stream w)) = None \<longrightarrow>
           fst (readPage env n buffer w) = FILE_IO_ERROR
           \<and> fst (writePage env n buffer w) = FILE_IO_ERROR)
        \<and> (\<not> fail (file_stream w) \<and> seek_ok env \<and> disk w (path (file_stream w)) = Some c \<longrightarrow>
             fst (readPage env n buffer w) = (if read_ok env then SUCCESS else FILE_IO_ERROR)
             \<and> fst (writePage env n buffer w) = (if write_ok env then SUCCESS else FILE_IO_ERROR)
             \<and> (read_ok env \<longrightarrow>
                  fst (snd (readPage env n buffer w))
                    = Some (take 4096 (drop (unat (n * PAGE_SIZE)) c)
                            @ drop (length (take 4096 (drop (unat (n * PAGE_SIZE)) c))) b))
             \<and> (read_ok env \<and> length c < unat (n * PAGE_SIZE) + 4096 \<longrightarrow>
                  eof (file_stream (snd (snd (readPage env n buffer w))))
                  \<and> length (take 4096 (drop (unat (n * PAGE_SIZE)) c)) < 4096)))"
proof (cases "\<not> is_open (file_stream w) \<or> buffer = None \<or> pageCount w \<le> n")
  case True
  then show ?thesis
    by (simp only: readPage_invalid writePage_invalid) auto
next
  case valid: False
  show ?thesis
  proof (cases "state (file_stream w) = Good")
    case True
    with valid show ?thesis
      by (auto simp add: readPage_good writePage_good fail_def eof_def Let_def not_le)
  next
    case False
    with valid show ?thesis
      by (auto simp add: readPage_failed_stream writePage_failed_stream fail_def not_le)
  qed
qed

theorem page_io_result_codes_witness:
  "readPage no_faults 5 (Some (replicate 4096 0)) created_db
     = (INVALID_INPUT, Some (replicate 4096 0), created_db)
   \<and> writePage no_faults 5 (Some (replicate 4096 0)) created_db = (INVALID_INPUT, created_db)
   \<and> fst (readPage seek_refused 0 (Some (replicate 4096 0)) created_db) = FILE_IO_ERROR
   \<and> fst (writePage seek_refused 0 (Some (replicate 4096 0)) created_db) = FILE_IO_ERROR
   \<and> fst (readPage no_faults 0 (Some (replicate 4096 0)) created_db) = SUCCESS
   \<and> fst (snd (readPage no_faults 0 (Some (replicate 4096 0)) created_db))
       = Some ([0x78, 0x56, 0x34, 0x12] @ replicate 4092 0)
   \<and> fst (writePage no_faults 0 (Some (replicate 4096 0)) created_db) = SUCCESS
   \<and> fst (writePage write_cut_short 0 (Some (replicate 4096 0)) created_db) = FILE_IO_ERROR
   \<and> fst (readPage no_faults 1 (Some (replicate 4096 0)) stale_count_db) = SUCCESS
   \<and> fst (snd (readPage no_faults 1 (Some (replicate 4096 0)) stale_count_db))
       = Some (replicate 904 7 @ replicate 3192 0)
   \<and> eof (file_stream (snd (snd (readPage no_faults 1 (Some (replicate 4096 0)) stale_count_db))))"
  using page_io_result_codes [where w = created_db and buffer = "Some (replicate 4096 0)"
      and n = 5 and env = no_faults]
    page_io_result_codes [where w = created_db and buffer = "Some (replicate 4096 0)"
      and n = 0 and b = "replicate 4096 0" and env = seek_refused]
    page_io_result_codes [where w = created_db and buffer = "Some (replicate 4096 0)"
      and n = 0 and b = "replicate 4096 0" and env = no_faults
      and c = "[0x78, 0x56, 0x34, 0x12] @ replicate 4092 0"]
    page_io_result_codes [where w = created_db and buffer = "Some (replicate 4096 0)"
      and n = 0 and b = "replicate 4096 0" and env = write_cut_short
      and c = "[0x78, 0x56, 0x34, 0x12] @ replicate 4092 0"]
    page_io_result_codes [where w = stale_count_db and buffer = "Some (replicate 4096 0)"
      and n = 1 and b = "replicate 4096 0" and env = no_faults and c = "replicate 5000 7"]
  by (simp add: created_db_eq stale_count_db_eq two_files_def no_faults_def seek_refused_def
      write_cut_short_def fail_def PAGE_SIZE_def)

text \<open>
  C5. The claim fails on the code for a file that the operating system lets be emptied
  but not opened for reading and writing. Line 237 takes the failure of the first
  \<^verbatim>\<open>open\<close> for a missing file (the comment at line 238), line 240 opens the file for
  writing, which empties it, and the second attempt to open it for reading and writing
  fails at line 249: \<^verbatim>\<open>open\<close> returns \<^verbatim>\<open>FILE_IO_ERROR\<close>, and of the 5000 bytes of the file
  none is left.
\<close>

theorem open_empties_write_only_file:
  "length (replicate 5000 (1 :: byte)) mod unat PAGE_SIZE \<noteq> 0
   \<and> fst (open_file write_only_file LittleEndian ''db'' (fresh [''db'' \<mapsto> replicate 5000 1]))
       = FILE_IO_ERROR
   \<and> disk (snd (open_file write_only_file LittleEndian ''db''
                  (fresh [''db'' \<mapsto> replicate 5000 1]))) ''db''
       = Some []"
  by (simp add: open_file_refused fresh_def write_only_file_def PAGE_SIZE_def)

text \<open>
  C6, as claimed, fails: \<^verbatim>\<open>open\<close> of a file of 5000 bytes returns \<^verbatim>\<open>FILE_IO_ERROR\<close> at
  line 265, before \<^verbatim>\<open>pageCount\<close> is assigned. The page count of the manager is still 0,
  and the size of the file divided by the page size is 1.
\<close>

theorem pageCount_tracks_file_size_counterexample:
  "fst (open_file no_faults LittleEndian ''b.db'' (fresh two_files)) = FILE_IO_ERROR
   \<and> getPageCount (snd (open_file no_faults LittleEndian ''b.db'' (fresh two_files))) = 0
   \<and> map_option (\<lambda>sz. sz div 4096)
        (file_size (snd (open_file no_faults LittleEndian ''b.db'' (fresh two_files)))) = Some 1"
  by (simp add: open_file_existing fresh_def two_files_def no_faults_def getPageCount_def
      file_size_def)

text \<open>
  C6, amended. Let \<^verbatim>\<open>open\<close> return \<^verbatim>\<open>SUCCESS\<close> on a manager whose stream was closed, for
  a file that is new (the header page was written) or at most 4 GiB long. After any
  sequence of \<^verbatim>\<open>open\<close>, \<^verbatim>\<open>readPage\<close>, \<^verbatim>\<open>writePage\<close>, \<^verbatim>\<open>allocatePage\<close> and \<^verbatim>\<open>freePage\<close> calls
  in which every \<^verbatim>\<open>allocatePage\<close> returns \<^verbatim>\<open>SUCCESS\<close>, whatever the other calls return,
  and which leaves the page count at \<open>2\<^sup>2\<^sup>0\<close> or below, the file holds exactly
  \<^verbatim>\<open>pageCount()\<close> pages: the page count is the size of the file divided by the page size.
\<close>

theorem pageCount_tracks_file_size:
  assumes "\<not> is_open (file_stream w0)"
    and "open_file env e fname w0 = (SUCCESS, w)"
    and "seek_ok env" and "write_ok env"
    and "case disk w0 fname of None \<Rightarrow> True | Some c \<Rightarrow> length c \<le> 2 ^ 32"
    and "allocations_succeed cs w"
    and "unat (getPageCount (run cs w)) \<le> 2 ^ 20"
  shows "file_size (run cs w) = Some (unat (getPageCount (run cs w)) * unat PAGE_SIZE)
         \<and> map_option (\<lambda>sz. sz div unat PAGE_SIZE) (file_size (run cs w))
             = Some (unat (getPageCount (run cs w)))"
proof -
  from assms(1-5) have "consistent w"
    by (rule open_file_consistent)
  moreover from assms(7) have "unat (pageCount (run cs w)) \<le> 2 ^ 20"
    by (simp add: getPageCount_def)
  ultimately have "consistent (run cs w)"
    using assms(6) by (simp add: run_consistent)
  then show ?thesis
    by (simp add: consistent_def getPageCount_def PAGE_SIZE_def)
qed

theorem pageCount_tracks_file_size_witness:
  "file_size (run demo_calls created_db) = Some 8192
   \<and> getPageCount (run demo_calls created_db) = 2
   \<and> map_option (\<lambda>sz. sz div unat PAGE_SIZE) (file_size (run demo_calls created_db)) = Some 2"
proof -
  have closed: "\<not> is_open (file_stream (fresh Map.empty))"
    by (simp add: fresh_def)
  have opened:
    "open_file no_faults LittleEndian ''tinydb_test.db'' (fresh Map.empty) = (SUCCESS, created_db)"
    by (simp add: created_db_def open_file_create fresh_def no_faults_def)
  have granted: "seek_ok no_faults" "write_ok no_faults"
    by (simp_all add: no_faults_def)
  have absent: "case disk (fresh Map.empty) ''tinydb_test.db'' of None \<Rightarrow> True
                | Some c \<Rightarrow> length c \<le> 2 ^ 32"
    by (simp add: fresh_def)
  have bound: "unat (getPageCount (run demo_calls created_db)) \<le> 2 ^ 20"
    by (simp add: run_demo_calls getPageCount_def)
  from pageCount_tracks_file_size [OF closed opened granted absent
      allocations_succeed_demo_calls bound]
  show ?thesis
    by (simp add: run_demo_calls getPageCount_def PAGE_SIZE_def)
qed

text \<open>
  C7, as claimed, fails: when the write that should extend the file is refused,
  \<^verbatim>\<open>allocatePage\<close> returns the code of \<^verbatim>\<open>writePage\<close>, which is \<^verbatim>\<open>FILE_IO_ERROR\<close>.
\<close>

theorem allocatePage_failure_code_counterexample:
  "fst (allocatePage write_refused 0 created_db) = FILE_IO_ERROR
   \<and> fst (allocatePage write_refused 0 created_db) \<noteq> PAGE_ALLOCATION_FAILURE
   \<and> disk (snd (snd (allocatePage write_refused 0 created_db))) = disk created_db"
  by (simp add: created_db_eq allocatePage_open writePage_good write_refused_def)

text \<open>
  C7, amended. No call of \<^verbatim>\<open>allocatePage\<close> returns \<^verbatim>\<open>PAGE_ALLOCATION_FAILURE\<close>. On a closed
  stream the call returns \<^verbatim>\<open>FILE_IO_ERROR\<close>. On an open stream with a page count below
  \<open>2\<^sup>3\<^sup>2 - 1\<close>, a call that finds the stream in a failed state, or in which positioning
  or the write of the new page fails, returns \<^verbatim>\<open>FILE_IO_ERROR\<close>, the code of the
  \<^verbatim>\<open>writePage\<close> it delegates to.
\<close>

theorem allocatePage_failure_code:
  "fst (allocatePage env pn w) \<noteq> PAGE_ALLOCATION_FAILURE
   \<and> (\<not> is_open (file_stream w) \<longrightarrow> fst (allocatePage env pn w) = FILE_IO_ERROR)
   \<and> (is_open (file_stream w) \<and> pageCount w \<noteq> - 1
        \<and> (fail (file_stream w) \<or> \<not> seek_ok env \<or> \<not> write_ok env)
      \<longrightarrow> fst (allocatePage env pn w) = FILE_IO_ERROR)"
proof (cases "is_open (file_stream w)")
  case False
  then show ?thesis by (simp add: allocatePage_closed)
next
  case opened: True
  show ?thesis
  proof (cases "pageCount w = - 1")
    case True
    with opened show ?thesis
      by (simp add: allocatePage_open writePage_invalid)
  next
    case False
    then have lt: "pageCount w < pageCount w + 1"
      by (simp add: word_less_succ)
    show ?thesis
    proof (cases "state (file_stream w) = Good")
      case True
      with opened lt show ?thesis
        by (simp add: allocatePage_open writePage_good fail_def Let_def split: option.splits)
    next
      case False
      with opened lt show ?thesis
        by (simp add: allocatePage_open writePage_failed_stream fail_def)
    qed
  qed
qed

theorem allocatePage_failure_code_witness:
  "fst (allocatePage write_cut_short 0 created_db) \<noteq> PAGE_ALLOCATION_FAILURE
   \<and> fst (allocatePage write_cut_short 0 created_db) = FILE_IO_ERROR
   \<and> fst (allocatePage seek_refused 0 created_db) = FILE_IO_ERROR
   \<and> fst (allocatePage no_faults 0 (fresh Map.empty)) = FILE_IO_ERROR"
  using allocatePage_failure_code [of write_cut_short 0 created_db]
    allocatePage_failure_code [of seek_refused 0 created_db]
    allocatePage_failure_code [of no_faults 0 "fresh Map.empty"]
  by (simp add: created_db_eq write_cut_short_def seek_refused_def fresh_def)


text \<open>
  C9. When the path names an empty file, the stream of the manager is closed and the
  operating system grants the requests, \<^verbatim>\<open>open\<close> returns \<^verbatim>\<open>SUCCESS\<close> with page count 0 and
  changes no file; \<^verbatim>\<open>allocatePage\<close> then returns page number 0 and the file becomes one
  page of zeros, whose first four bytes are not those of the magic number.
\<close>

theorem open_empty_file_has_no_header:
  assumes "disk w fname = Some []" and "\<not> is_open (file_stream w)"
    and "open_ok env" and "seek_ok env"
    and "open_file env e fname w = (rc, w1)"
    and "seek_ok env'" and "write_ok env'"
    and "allocatePage env' pn w1 = (rc', pn', w2)"
  shows "rc = SUCCESS \<and> getPageCount w1 = 0 \<and> disk w1 = disk w
         \<and> rc' = SUCCESS \<and> pn' = 0 \<and> getPageCount w2 = 1
         \<and> disk w2 fname = Some (replicate 4096 0)
         \<and> take 4 (replicate 4096 (0::byte)) \<noteq> object_bytes e MAGIC_NUMBER"
proof -
  from assms(1-5) have w1: "rc = SUCCESS"
    "w1 = w\<lparr>file_stream := \<lparr>is_open = True, path = fname, state = Good, pos = 0\<rparr>,
           filename := fname, pageCount := 0\<rparr>"
    by (simp_all add: open_file_existing)
  have magic: "take 4 (replicate 4096 (0::byte)) \<noteq> object_bytes e MAGIC_NUMBER"
    by (cases e) (simp_all add: magic_bytes_le magic_bytes_be replicate_4)
  from assms(1,6-8) w1 magic show ?thesis
    by (auto simp add: allocatePage_open writePage_good getPageCount_def pwrite_def PAGE_SIZE_def)
qed

theorem open_empty_file_has_no_header_witness:
  "fst (open_file no_faults LittleEndian ''db'' (fresh [''db'' \<mapsto> []])) = SUCCESS
   \<and> getPageCount (snd (open_file no_faults LittleEndian ''db'' (fresh [''db'' \<mapsto> []]))) = 0
   \<and> fst (allocatePage no_faults 7
             (snd (open_file no_faults LittleEndian ''db'' (fresh [''db'' \<mapsto> []])))) = SUCCESS
   \<and> fst (snd (allocatePage no_faults 7
             (snd (open_file no_faults LittleEndian ''db'' (fresh [''db'' \<mapsto> []]))))) = 0
   \<and> disk (snd (snd (allocatePage no_faults 7
             (snd (open_file no_faults LittleEndian ''db'' (fresh [''db'' \<mapsto> []]))))))
        ''db'' = Some (replicate 4096 0)"
  using open_empty_file_has_no_header [of "fresh [''db'' \<mapsto> []]" "''db''" no_faults
      LittleEndian
      "fst (open_file no_faults LittleEndian ''db'' (fresh [''db'' \<mapsto> []]))"
      "snd (open_file no_faults LittleEndian ''db'' (fresh [''db'' \<mapsto> []]))"
      no_faults 7
      "fst (allocatePage no_faults 7
             (snd (open_file no_faults LittleEndian ''db'' (fresh [''db'' \<mapsto> []]))))"
      "fst (snd (allocatePage no_faults 7
             (snd (open_file no_faults LittleEndian ''db'' (fresh [''db'' \<mapsto> []])))))"
      "snd (snd (allocatePage no_faults 7
             (snd (open_file no_faults LittleEndian ''db'' (fresh [''db'' \<mapsto> []])))))"]
  by (simp add: fresh_def no_faults_def)

text \<open>
  C10. The offset that \<^verbatim>\<open>readPage\<close> and \<^verbatim>\<open>writePage\<close> pass to \<^verbatim>\<open>seekg\<close> and \<^verbatim>\<open>seekp\<close> is
  \<open>(n * 4096) mod 2\<^sup>3\<^sup>2\<close>: when the call gets as far as the transfer, \<^verbatim>\<open>writePage\<close> puts the
  buffer at that offset of the file and \<^verbatim>\<open>readPage\<close> fills the buffer from that offset.
  For every page number from \<open>2\<^sup>2\<^sup>0\<close> on it is smaller than \<open>n * 4096\<close>.
\<close>

theorem page_offset_wraps:
  assumes "is_open (file_stream w)" and "n < pageCount w" and "\<not> fail (file_stream w)"
    and "seek_ok env" and "disk w (path (file_stream w)) = Some c"
  shows "unat (n * PAGE_SIZE) = (unat n * 4096) mod 2 ^ 32
     \<and> (write_ok env \<longrightarrow>
          writePage env n (Some b) w =
            (SUCCESS,
             w\<lparr>file_stream :=
                 (file_stream w)\<lparr>pos := (unat n * 4096) mod 2 ^ 32 + length (take 4096 b)\<rparr>,
               disk := (disk w)(path (file_stream w) \<mapsto>
                          pwrite c ((unat n * 4096) mod 2 ^ 32) (take 4096 b))\<rparr>))
     \<and> (read_ok env \<longrightarrow>
          fst (snd (readPage env n (Some b) w)) =
            Some (take 4096 (drop ((unat n * 4096) mod 2 ^ 32) c)
                  @ drop (length (take 4096 (drop ((unat n * 4096) mod 2 ^ 32) c))) b))
     \<and> (2 ^ 20 \<le> unat n \<longrightarrow> (unat n * 4096) mod 2 ^ 32 < unat n * 4096)"
proof -
  have off: "unat (n * PAGE_SIZE) = (unat n * 4096) mod 2 ^ 32"
    by (simp add: PAGE_SIZE_def unat_word_ariths)
  have wrap: "(unat n * 4096) mod 2 ^ 32 < unat n * 4096" if "2 ^ 20 \<le> unat n"
  proof -
    have "(unat n * 4096) mod 2 ^ 32 < (2 ^ 32 :: nat)" by simp
    also from that have "(2 ^ 32 :: nat) \<le> unat n * 4096" by simp
    finally show ?thesis .
  qed
  from assms have good: "state (file_stream w) = Good"
    by (simp add: fail_def)
  from assms(1,2,4,5) good off wrap show ?thesis
    by (simp add: writePage_good readPage_good Let_def)
qed

theorem page_offset_wraps_witness:
  "unat ((1048576 :: u32) * PAGE_SIZE) = 0
   \<and> writePage no_faults 1048576 (Some (replicate 4096 0xAA)) four_gib_db_allocated
       = (SUCCESS, four_gib_db_written)
   \<and> fst (snd (readPage no_faults 1048576 (Some (replicate 4096 0)) four_gib_db_allocated))
       = Some (replicate 4096 0)
   \<and> (0 :: nat) < 1048576 * 4096"
  using page_offset_wraps [where w = four_gib_db_allocated and n = 1048576 and env = no_faults
      and c = "replicate 4096 0 @ replicate 4294963200 0" and b = "replicate 4096 0xAA"]
    page_offset_wraps [where w = four_gib_db_allocated and n = 1048576 and env = no_faults
      and c = "replicate 4096 0 @ replicate 4294963200 0" and b = "replicate 4096 0"]
  by (simp add: four_gib_db_allocated_eq four_gib_db_written_eq no_faults_def fail_def
      pwrite_def)

end
